theory Spec2Isabelle
  imports Complex_Main "HOL-Library.Multiset"
begin

section \<open>Values read from a trace file\<close>

text \<open>
  A trace file is a JSON document; \<open>json.load\<close> turns it into nested Python values.
  Objects are Python dictionaries, kept here as association lists in insertion order
  (their keys are distinct, as in every dictionary). Numbers are idealised as reals:
  rounding of floating-point arithmetic is outside this development.
\<close>

datatype json =
    JNull
  | JBool bool
  | JNum real
  | JStr string
  | JArr "json list"
  | JObj "(string \<times> json) list"

type_synonym pydict = "(string \<times> json) list"

text \<open>The exceptions that the modelled code raises or lets through.\<close>

datatype py_error =
    FileNotFoundError string
  | ValueError string
  | KeyError string
  | TypeError
  | AttributeError
  | IndexError
  | OtherError

section \<open>Event type and operation constants\<close>

abbreviation EventType_BUS_TRANSACTION :: string where
  "EventType_BUS_TRANSACTION \<equiv> ''BUS_TRANSACTION''"
abbreviation EventType_IRQ_EVENT :: string where
  "EventType_IRQ_EVENT \<equiv> ''IRQ_EVENT''"
abbreviation EventType_DEVICE_EVENT :: string where
  "EventType_DEVICE_EVENT \<equiv> ''DEVICE_EVENT''"

abbreviation BusOperation_READ :: string where
  "BusOperation_READ \<equiv> ''READ''"
abbreviation BusOperation_WRITE :: string where
  "BusOperation_WRITE \<equiv> ''WRITE''"

abbreviation DeviceOperation_READ :: string where
  "DeviceOperation_READ \<equiv> ''READ''"
abbreviation DeviceOperation_WRITE :: string where
  "DeviceOperation_WRITE \<equiv> ''WRITE''"
abbreviation DeviceOperation_RESET :: string where
  "DeviceOperation_RESET \<equiv> ''RESET''"
abbreviation DeviceOperation_ENABLE :: string where
  "DeviceOperation_ENABLE \<equiv> ''ENABLE''"
abbreviation DeviceOperation_DISABLE :: string where
  "DeviceOperation_DISABLE \<equiv> ''DISABLE''"

section \<open>Color resolution\<close>

text \<open>
  \<open>TraceParser.get_event_color\<close>: the nested dictionary literal \<open>color_map\<close>, then
  \<open>color_map.get(event_type, {})\<close>, the test \<open>operation and operation in event_colors\<close>
  and the fallback \<open>event_colors.get('default', '#7f7f7f')\<close>. The optional argument
  \<open>operation\<close> is \<open>None\<close> when it is not given; an empty string is falsy.
\<close>

definition color_map :: "(string \<times> (string \<times> string) list) list" where
  "color_map =
    [(EventType_BUS_TRANSACTION,
        [(BusOperation_READ, ''#3498db''),
         (BusOperation_WRITE, ''#e74c3c''),
         (''default'', ''#9b59b6'')]),
     (EventType_DEVICE_EVENT,
        [(DeviceOperation_READ, ''#2ecc71''),
         (DeviceOperation_WRITE, ''#f39c12''),
         (DeviceOperation_RESET, ''#e67e22''),
         (DeviceOperation_ENABLE, ''#1abc9c''),
         (DeviceOperation_DISABLE, ''#95a5a6''),
         (''DEMO_EVENT'', ''#f1c40f''),
         (''default'', ''#34495e'')]),
     (EventType_IRQ_EVENT,
        [(''default'', ''#8e44ad'')])]"

definition dict_get :: "('k \<times> 'v) list \<Rightarrow> 'k \<Rightarrow> 'v \<Rightarrow> 'v" where
  "dict_get d k dflt = (case map_of d k of None \<Rightarrow> dflt | Some v \<Rightarrow> v)"

definition get_event_color :: "string \<Rightarrow> string option \<Rightarrow> string" where
  "get_event_color event_type operation =
     (let event_colors = dict_get color_map event_type []
      in case operation of
           None \<Rightarrow> dict_get event_colors ''default'' ''#7f7f7f''
         | Some opn \<Rightarrow>
             (if opn \<noteq> [] \<and> opn \<in> fst ` set event_colors
              then dict_get event_colors opn ''#7f7f7f''
              else dict_get event_colors ''default'' ''#7f7f7f''))"

section \<open>Python values as the parser uses them\<close>

text \<open>Truth value of a Python object, as tested by \<open>if not self.trace_data\<close>.\<close>

fun py_truthy :: "json \<Rightarrow> bool" where
  "py_truthy JNull = False"
| "py_truthy (JBool b) = b"
| "py_truthy (JNum x) = (x \<noteq> 0)"
| "py_truthy (JStr s) = (s \<noteq> [])"
| "py_truthy (JArr xs) = (xs \<noteq> [])"
| "py_truthy (JObj kvs) = (kvs \<noteq> [])"

text \<open>
  Subscription \<open>obj[key]\<close> with a string key: a dictionary looks the key up or raises
  KeyError, every other value raises TypeError.
\<close>

fun py_getitem :: "json \<Rightarrow> string \<Rightarrow> py_error + json" where
  "py_getitem (JObj kvs) k = (case map_of kvs k of None \<Rightarrow> Inl (KeyError k) | Some v \<Rightarrow> Inr v)"
| "py_getitem _ k = Inl TypeError"

text \<open>
  Iteration \<open>for event in obj\<close>: a list yields its elements, a dictionary its keys, a
  string its characters; nothing else is iterable.
\<close>

fun py_iter :: "json \<Rightarrow> py_error + json list" where
  "py_iter (JArr xs) = Inr xs"
| "py_iter (JObj kvs) = Inr (map (\<lambda>kv. JStr (fst kv)) kvs)"
| "py_iter (JStr s) = Inr (map (\<lambda>c. JStr [c]) s)"
| "py_iter _ = Inl TypeError"

text \<open>\<open>obj.items()\<close>: only a dictionary has the method.\<close>

fun py_items :: "json \<Rightarrow> py_error + (string \<times> json) list" where
  "py_items (JObj kvs) = Inr kvs"
| "py_items _ = Inl AttributeError"

text \<open>
  Assignment \<open>d[k] = v\<close> on an insertion-ordered dictionary: an existing key keeps its
  place, a new key goes to the end.
\<close>

fun dict_set :: "('k \<times> 'v) list \<Rightarrow> 'k \<Rightarrow> 'v \<Rightarrow> ('k \<times> 'v) list" where
  "dict_set [] k v = [(k, v)]"
| "dict_set (p # ps) k v = (if fst p = k then (k, v) # ps else p # dict_set ps k v)"

section \<open>Data frames\<close>

text \<open>
  A cell of a pandas data frame holds the value given for it, or NaN where the row had no
  value for the column. Coercions between pandas column types are not modelled: a cell
  keeps the value read from the file.
\<close>

datatype cell = NaN | Val json

type_synonym row = "(string \<times> cell) list"

record dataframe =
  df_columns :: "string list"
  df_rows :: "row list"

text \<open>
  The values of a list in order of first appearance, as \<open>Series.unique()\<close> and the
  column index of \<open>pd.DataFrame(list_of_dicts)\<close> compute them: one scan, a value
  is appended when it has not been seen.
\<close>

fun uniq_from :: "'a list \<Rightarrow> 'a list \<Rightarrow> 'a list" where
  "uniq_from seen [] = seen"
| "uniq_from seen (x # xs) =
     (if x \<in> set seen then uniq_from seen xs else uniq_from (seen @ [x]) xs)"

definition unique :: "'a list \<Rightarrow> 'a list" where
  "unique xs = uniq_from [] xs"

text \<open>
  \<open>pd.DataFrame(events)\<close> for a list of dictionaries: the columns are the keys in
  order of first appearance over all rows, and a row without a key gets NaN there.
\<close>

definition row_of_dict :: "string list \<Rightarrow> pydict \<Rightarrow> row" where
  "row_of_dict cols d =
     map (\<lambda>c. (c, case map_of d c of None \<Rightarrow> NaN | Some v \<Rightarrow> Val v)) cols"

definition DataFrame :: "pydict list \<Rightarrow> dataframe" where
  "DataFrame dicts =
     (let cols = unique (concat (map (map fst) dicts))
      in \<lparr>df_columns = cols, df_rows = map (row_of_dict cols) dicts\<rparr>)"

text \<open>\<open>row[c]\<close> on a row of the frame, and \<open>df[c]\<close>, which raises KeyError for a
  column the frame does not have.\<close>

definition row_get :: "row \<Rightarrow> string \<Rightarrow> cell" where
  "row_get r c = (case map_of r c of None \<Rightarrow> NaN | Some v \<Rightarrow> v)"

definition df_col :: "dataframe \<Rightarrow> string \<Rightarrow> py_error + cell list" where
  "df_col df c =
     (if c \<in> set (df_columns df) then Inr (map (\<lambda>r. row_get r c) (df_rows df))
      else Inl (KeyError c))"

text \<open>The values of a column, row by row.\<close>

definition column :: "dataframe \<Rightarrow> string \<Rightarrow> cell list" where
  "column df c = map (\<lambda>r. row_get r c) (df_rows df)"

section \<open>The parser\<close>

text \<open>
  What \<open>open\<close> and \<open>json.load\<close> find at a path: no file, a file whose content is
  not JSON, a file that cannot be read for another reason, or a document.
\<close>

datatype file_state = Absent | Undecodable | Unreadable | Content json

record trace_parser =
  trace_file_path :: string
  trace_data :: json
  parser_events_df :: "dataframe option"

text \<open>\<open>TraceParser.__init__\<close>; Python's \<open>None\<close> is the null value.\<close>

definition TraceParser :: "string \<Rightarrow> trace_parser" where
  "TraceParser path = \<lparr>trace_file_path = path, trace_data = JNull, parser_events_df = None\<rparr>"

text \<open>
  \<open>TraceParser.load_trace_data\<close>. The result is paired with the parser after the
  call: an exception leaves the assignments made before it.
\<close>

definition load_trace_data ::
  "(string \<Rightarrow> file_state) \<Rightarrow> trace_parser \<Rightarrow> (py_error + json) \<times> trace_parser" where
  "load_trace_data fs p =
     (case fs (trace_file_path p) of
        Absent \<Rightarrow> (Inl (FileNotFoundError (''Trace file not found: '' @ trace_file_path p)), p)
      | Undecodable \<Rightarrow> (Inl (ValueError (''Invalid JSON format in file: '' @ trace_file_path p)), p)
      | Unreadable \<Rightarrow> (Inl OtherError, p)
      | Content doc \<Rightarrow> (Inr doc, p\<lparr>trace_data := doc\<rparr>))"

text \<open>The body of the loop of \<open>parse_events\<close> for one event.\<close>

definition parse_event :: "json \<Rightarrow> py_error + pydict" where
  "parse_event event =
     (case py_getitem event ''timestamp'' of Inl e \<Rightarrow> Inl e | Inr ts \<Rightarrow>
      case py_getitem event ''formatted_time'' of Inl e \<Rightarrow> Inl e | Inr ft \<Rightarrow>
      case py_getitem event ''module_name'' of Inl e \<Rightarrow> Inl e | Inr mn \<Rightarrow>
      case py_getitem event ''event_type'' of Inl e \<Rightarrow> Inl e | Inr et \<Rightarrow>
      (let parsed_event =
             [(''timestamp'', ts), (''formatted_time'', ft),
              (''module_name'', mn), (''event_type'', et)]
       in case py_getitem event ''event_data'' of
            Inl _ \<Rightarrow> Inr parsed_event
          | Inr event_data \<Rightarrow>
              (case py_items event_data of
                 Inl e \<Rightarrow> Inl e
               | Inr items \<Rightarrow>
                   Inr (fold (\<lambda>kv d. dict_set d (''data_'' @ fst kv) (snd kv)) items parsed_event))))"

fun parse_loop :: "json list \<Rightarrow> pydict list \<Rightarrow> py_error + pydict list" where
  "parse_loop [] events = Inr events"
| "parse_loop (event # rest) events =
     (case parse_event event of
        Inl e \<Rightarrow> Inl e
      | Inr parsed_event \<Rightarrow> parse_loop rest (events @ [parsed_event]))"

text \<open>\<open>TraceParser.parse_events\<close>.\<close>

definition parse_events ::
  "(string \<Rightarrow> file_state) \<Rightarrow> trace_parser \<Rightarrow> (py_error + dataframe) \<times> trace_parser" where
  "parse_events fs p =
     (let (loaded, p1) =
            (if py_truthy (trace_data p) then (Inr (trace_data p), p) else load_trace_data fs p)
      in case loaded of
           Inl e \<Rightarrow> (Inl e, p1)
         | Inr _ \<Rightarrow>
             (case py_getitem (trace_data p1) ''events'' of
                Inl e \<Rightarrow> (Inl e, p1)
              | Inr evs \<Rightarrow>
                  (case py_iter evs of
                     Inl e \<Rightarrow> (Inl e, p1)
                   | Inr event_list \<Rightarrow>
                       (case parse_loop event_list [] of
                          Inl e \<Rightarrow> (Inl e, p1)
                        | Inr events \<Rightarrow>
                            (let df = DataFrame events
                             in (Inr df, p1\<lparr>parser_events_df := Some df\<rparr>))))))"

section \<open>String operations\<close>

text \<open>
  Strings are lists of 8-bit characters; the case conversions below are those of the
  ASCII letters, the other characters being left as they are.
\<close>

definition startswith :: "string \<Rightarrow> string \<Rightarrow> bool" where
  "startswith s p = (take (length p) s = p)"

text \<open>
  \<open>s.replace(old, new)\<close> for a non-empty \<open>old\<close>: every occurrence, scanning from
  the left, occurrences not overlapping.
\<close>

function str_replace :: "string \<Rightarrow> string \<Rightarrow> string \<Rightarrow> string" where
  "str_replace old new [] = []"
| "str_replace old new (c # cs) =
     (if old \<noteq> [] \<and> startswith (c # cs) old
      then new @ str_replace old new (drop (length old) (c # cs))
      else c # str_replace old new cs)"
  by pat_completeness auto
termination
  by (relation "measure (\<lambda>(old, new, s). length s)") auto

definition is_lower :: "char \<Rightarrow> bool" where
  "is_lower c = (97 \<le> (of_char c :: nat) \<and> (of_char c :: nat) \<le> 122)"

definition is_upper :: "char \<Rightarrow> bool" where
  "is_upper c = (65 \<le> (of_char c :: nat) \<and> (of_char c :: nat) \<le> 90)"

definition to_upper :: "char \<Rightarrow> char" where
  "to_upper c = (if is_lower c then char_of ((of_char c :: nat) - 32) else c)"

definition to_lower :: "char \<Rightarrow> char" where
  "to_lower c = (if is_upper c then char_of ((of_char c :: nat) + 32) else c)"

text \<open>
  \<open>s.title()\<close>: a letter that follows a letter is lowered, a letter that does not is
  raised, and any other character ends the word. The flag is Python's
  \<open>previous_is_cased\<close>.
\<close>

fun title_from :: "bool \<Rightarrow> string \<Rightarrow> string" where
  "title_from previous_is_cased [] = []"
| "title_from previous_is_cased (c # cs) =
     (if is_lower c then (if previous_is_cased then c else to_upper c) # title_from True cs
      else if is_upper c then (if previous_is_cased then to_lower c else c) # title_from True cs
      else c # title_from False cs)"

definition title :: "string \<Rightarrow> string" where
  "title s = title_from False s"

text \<open>\<open>sep.join(parts)\<close>.\<close>

fun join :: "string \<Rightarrow> string list \<Rightarrow> string" where
  "join sep [] = []"
| "join sep [p] = p"
| "join sep (p # q # ps) = p @ sep @ join sep (q # ps)"

section \<open>Hover text\<close>

text \<open>
  \<open>pd.notna(v) and v is not None\<close> on a cell: false for NaN and for \<open>None\<close>, true
  for every other scalar and for a dictionary. For a list pandas answers with an array,
  whose truth value depends on its length and on the library version: a list-valued cell
  is outside the modelled domain and stops the model with ValueError.
\<close>

fun pd_notna :: "cell \<Rightarrow> bool" where
  "pd_notna NaN = False"
| "pd_notna (Val JNull) = False"
| "pd_notna (Val _) = True"

fun is_list_cell :: "cell \<Rightarrow> bool" where
  "is_list_cell (Val (JArr _)) = True"
| "is_list_cell _ = False"

text \<open>\<open>row[c]\<close> for a column the row may lack.\<close>

definition row_getitem :: "row \<Rightarrow> string \<Rightarrow> py_error + cell" where
  "row_getitem r c = (case map_of r c of None \<Rightarrow> Inl (KeyError c) | Some v \<Rightarrow> Inr v)"

text \<open>
  The loop of \<open>create_hover_text\<close> over the data fields. The parameter \<open>fmt\<close> is
  Python's formatting of a cell value inside an f-string.
\<close>

fun hover_fields :: "(cell \<Rightarrow> string) \<Rightarrow> row \<Rightarrow> string list \<Rightarrow> string list \<Rightarrow> py_error + string list" where
  "hover_fields fmt r [] hover_parts = Inr hover_parts"
| "hover_fields fmt r (field # more_fields) hover_parts =
     (if is_list_cell (row_get r field) then Inl (ValueError ''truth value of an array'')
      else if pd_notna (row_get r field) then
        (let field_name = title (str_replace ''_'' '' '' (str_replace ''data_'' [] field))
         in hover_fields fmt r more_fields
              (hover_parts @ [''<b>'' @ field_name @ '':</b> '' @ fmt (row_get r field)]))
      else hover_fields fmt r more_fields hover_parts)"

definition create_hover_text :: "(cell \<Rightarrow> string) \<Rightarrow> row \<Rightarrow> py_error + string" where
  "create_hover_text fmt r =
     (case row_getitem r ''formatted_time'' of Inl e \<Rightarrow> Inl e | Inr ft \<Rightarrow>
      case row_getitem r ''module_name'' of Inl e \<Rightarrow> Inl e | Inr mn \<Rightarrow>
      case row_getitem r ''event_type'' of Inl e \<Rightarrow> Inl e | Inr et \<Rightarrow>
      (let hover_parts =
             [''<b>Time:</b> '' @ fmt ft,
              ''<b>Module:</b> '' @ fmt mn,
              ''<b>Event Type:</b> '' @ fmt et];
           data_fields = filter (\<lambda>col. startswith col ''data_'') (map fst r)
       in case hover_fields fmt r data_fields hover_parts of
            Inl e \<Rightarrow> Inl e
          | Inr parts \<Rightarrow> Inr (join ''<br>'' parts)))"

section \<open>The visualizer\<close>

record trace_visualizer =
  parser :: trace_parser
  events_df :: "dataframe option"

definition TraceVisualizer :: "trace_parser \<Rightarrow> trace_visualizer" where
  "TraceVisualizer p = \<lparr>parser = p, events_df = None\<rparr>"

text \<open>
  Cells are compared and used as dictionary keys by their value. A list or a dictionary
  is not hashable: \<open>unique()\<close> and a dictionary lookup raise TypeError on it. Comparing
  cells by structure is what Python does for the strings that the file format puts into
  \<open>module_name\<close>, \<open>event_type\<close> and \<open>operation\<close>.
\<close>

fun hashable :: "cell \<Rightarrow> bool" where
  "hashable (Val (JArr _)) = False"
| "hashable (Val (JObj _)) = False"
| "hashable _ = True"

fun cell_truthy :: "cell \<Rightarrow> bool" where
  "cell_truthy NaN = True"
| "cell_truthy (Val j) = py_truthy j"

fun str_arg :: "cell \<Rightarrow> string option" where
  "str_arg (Val (JStr s)) = Some s"
| "str_arg _ = None"

text \<open>
  The call \<open>get_event_color(row['event_type'], operation)\<close> on cells. A key that is
  not a string is in neither dictionary, so an event type that is not a string gets the
  global default and such an operation the default of the event type.
\<close>

definition event_color_of_cells :: "cell \<Rightarrow> cell \<Rightarrow> py_error + string" where
  "event_color_of_cells et operation =
     (if \<not> hashable et then Inl TypeError
      else if cell_truthy operation \<and> \<not> hashable operation then Inl TypeError
      else case et of
             Val (JStr s) \<Rightarrow> Inr (get_event_color s (str_arg operation))
           | _ \<Rightarrow> Inr ''#7f7f7f'')"

text \<open>The loop over \<open>iterrows()\<close> that collects the colors.\<close>

fun color_rows :: "row list \<Rightarrow> string list \<Rightarrow> py_error + string list" where
  "color_rows [] colors = Inr colors"
| "color_rows (r # rs) colors =
     (let operation = (case map_of r ''data_operation'' of None \<Rightarrow> Val JNull | Some c \<Rightarrow> c)
      in case row_getitem r ''event_type'' of
           Inl e \<Rightarrow> Inl e
         | Inr et \<Rightarrow>
             (case event_color_of_cells et operation of
                Inl e \<Rightarrow> Inl e
              | Inr color \<Rightarrow> color_rows rs (colors @ [color])))"

text \<open>\<open>df.apply(create_hover_text, axis=1)\<close>: the rows in order, the first error ends it.\<close>

fun hover_rows :: "(cell \<Rightarrow> string) \<Rightarrow> row list \<Rightarrow> py_error + string list" where
  "hover_rows fmt [] = Inr []"
| "hover_rows fmt (r # rs) =
     (case create_hover_text fmt r of
        Inl e \<Rightarrow> Inl e
      | Inr h \<Rightarrow> (case hover_rows fmt rs of Inl e \<Rightarrow> Inl e | Inr hs \<Rightarrow> Inr (h # hs)))"

text \<open>\<open>df[c] = values\<close>: a new column goes to the end of every row.\<close>

definition df_assign :: "dataframe \<Rightarrow> string \<Rightarrow> cell list \<Rightarrow> dataframe" where
  "df_assign df c vs =
     \<lparr>df_columns = (if c \<in> set (df_columns df) then df_columns df else df_columns df @ [c]),
      df_rows = map (\<lambda>(r, v). dict_set r c v) (zip (df_rows df) vs)\<rparr>"

text \<open>
  The lane table \<open>{module: i for i, module in enumerate(unique_modules)}\<close> and the
  lookup that \<open>Series.map\<close> makes in it.
\<close>

definition module_positions_of :: "cell list \<Rightarrow> (cell \<times> nat) list" where
  "module_positions_of mods =
     (let unique_modules = unique mods in zip unique_modules [0..<length unique_modules])"

definition lane_cell :: "(cell \<times> nat) list \<Rightarrow> cell \<Rightarrow> cell" where
  "lane_cell module_positions m =
     (case map_of module_positions m of None \<Rightarrow> NaN | Some i \<Rightarrow> Val (JNum (real i)))"


text \<open>\<open>TraceVisualizer.prepare_data\<close>.\<close>

definition prepare_data ::
  "(string \<Rightarrow> file_state) \<Rightarrow> (cell \<Rightarrow> string) \<Rightarrow> trace_visualizer \<Rightarrow>
     (py_error + unit) \<times> trace_visualizer" where
  "prepare_data fs fmt v =
     (case parse_events fs (parser v) of
        (Inl e, p1) \<Rightarrow> (Inl e, v\<lparr>parser := p1\<rparr>)
      | (Inr df, p1) \<Rightarrow>
          (let v1 = v\<lparr>parser := p1, events_df := Some df\<rparr>
           in case df_col df ''module_name'' of
                Inl e \<Rightarrow> (Inl e, v1)
              | Inr mods \<Rightarrow>
                  if \<not> list_all hashable mods then (Inl TypeError, v1)
                  else
                    (let module_positions = module_positions_of mods;
                         df2 = df_assign df ''y_position'' (map (lane_cell module_positions) mods);
                         v2 = v1\<lparr>events_df := Some df2\<rparr>
                     in case color_rows (df_rows df2) [] of
                          Inl e \<Rightarrow> (Inl e, v2)
                        | Inr colors \<Rightarrow>
                            (let df3 = df_assign df2 ''color'' (map (\<lambda>c. Val (JStr c)) colors);
                                 v3 = v2\<lparr>events_df := Some df3\<rparr>
                             in case hover_rows fmt (df_rows df3) of
                                  Inl e \<Rightarrow> (Inl e, v3)
                                | Inr hs \<Rightarrow>
                                    (Inr (),
                                     v3\<lparr>events_df :=
                                          Some (df_assign df3 ''hover_text''
                                                  (map (\<lambda>h. Val (JStr h)) hs))\<rparr>)))))"

section \<open>Timeline figure\<close>









section \<open>Summary statistics\<close>

record time_span =
  ts_start :: cell
  ts_end :: cell
  ts_duration :: real

record summary_stats =
  total_events :: nat
  event_types :: "(cell \<times> nat) list"
  modules :: "(cell \<times> nat) list"
  time_span :: time_span

text \<open>
  \<open>Series.value_counts().to_dict()\<close>: the number of occurrences of every value
  that is not missing. pandas orders the entries by frequency; that order is not
  modelled, the entries are listed here in order of first appearance.
\<close>

definition value_counts :: "cell list \<Rightarrow> (cell \<times> nat) list" where
  "value_counts cs = map (\<lambda>k. (k, count_list cs k)) (unique (filter pd_notna cs))"

text \<open>\<open>.iloc[0]\<close> and \<open>.iloc[-1]\<close>, which raise IndexError on an empty column.\<close>

definition iloc_first :: "'a list \<Rightarrow> py_error + 'a" where
  "iloc_first xs = (case xs of [] \<Rightarrow> Inl IndexError | x # _ \<Rightarrow> Inr x)"

definition iloc_last :: "'a list \<Rightarrow> py_error + 'a" where
  "iloc_last xs = (if xs = [] then Inl IndexError else Inr (last xs))"

text \<open>Subtraction of two timestamps; only numbers can be subtracted.\<close>

fun py_sub :: "cell \<Rightarrow> cell \<Rightarrow> py_error + real" where
  "py_sub (Val (JNum a)) (Val (JNum b)) = Inr (a - b)"
| "py_sub _ _ = Inl TypeError"

text \<open>The dictionary literal of \<open>create_summary_stats\<close> on the data frame, its
  entries evaluated in order.\<close>

definition stats_of :: "dataframe \<Rightarrow> py_error + summary_stats" where
  "stats_of df =
     (case df_col df ''event_type'' of Inl e \<Rightarrow> Inl e | Inr ets \<Rightarrow>
      if \<not> list_all hashable ets then Inl TypeError else
      case df_col df ''module_name'' of Inl e \<Rightarrow> Inl e | Inr mods \<Rightarrow>
      if \<not> list_all hashable mods then Inl TypeError else
      case df_col df ''formatted_time'' of Inl e \<Rightarrow> Inl e | Inr fts \<Rightarrow>
      case iloc_first fts of Inl e \<Rightarrow> Inl e | Inr start \<Rightarrow>
      case iloc_last fts of Inl e \<Rightarrow> Inl e | Inr end_time \<Rightarrow>
      case df_col df ''timestamp'' of Inl e \<Rightarrow> Inl e | Inr tss \<Rightarrow>
      case iloc_last tss of Inl e \<Rightarrow> Inl e | Inr t_last \<Rightarrow>
      case iloc_first tss of Inl e \<Rightarrow> Inl e | Inr t_first \<Rightarrow>
      case py_sub t_last t_first of Inl e \<Rightarrow> Inl e | Inr d \<Rightarrow>
        Inr \<lparr>total_events = length (df_rows df),
             event_types = value_counts ets,
             modules = value_counts mods,
             time_span = \<lparr>ts_start = start, ts_end = end_time, ts_duration = d\<rparr>\<rparr>)"

text \<open>\<open>TraceVisualizer.create_summary_stats\<close>.\<close>

definition create_summary_stats ::
  "(string \<Rightarrow> file_state) \<Rightarrow> (cell \<Rightarrow> string) \<Rightarrow> trace_visualizer \<Rightarrow>
     (py_error + summary_stats) \<times> trace_visualizer" where
  "create_summary_stats fs fmt v =
     (let (prepared, v1) =
            (if events_df v = None then prepare_data fs fmt v else (Inr (), v))
      in case prepared of
           Inl e \<Rightarrow> (Inl e, v1)
         | Inr _ \<Rightarrow>
             (case events_df v1 of
                None \<Rightarrow> (Inl TypeError, v1)
              | Some df \<Rightarrow> (stats_of df, v1)))"

section \<open>The file format and example documents\<close>

text \<open>
  The input format: a document is an object whose \<open>events\<close> entry is an array; an
  event is an object with the four core keys and, optionally, an \<open>event_data\<close> object.
  Nothing is asked of \<open>trace_info\<close>.
\<close>

fun valid_event :: "json \<Rightarrow> bool" where
  "valid_event (JObj kvs) =
     (list_all (\<lambda>k. map_of kvs k \<noteq> None)
        [''timestamp'', ''formatted_time'', ''module_name'', ''event_type'']
      \<and> (case map_of kvs ''event_data'' of
            None \<Rightarrow> True
          | Some (JObj _) \<Rightarrow> True
          | Some _ \<Rightarrow> False))"
| "valid_event _ = False"

fun doc_events :: "json \<Rightarrow> json list option" where
  "doc_events (JObj kvs) =
     (case map_of kvs ''events'' of Some (JArr evs) \<Rightarrow> Some evs | _ \<Rightarrow> None)"
| "doc_events _ = None"

text \<open>A file system with a single path, and a formatter of cells, for the examples.\<close>

definition one_file :: "string \<Rightarrow> file_state \<Rightarrow> string \<Rightarrow> file_state" where
  "one_file path st p = (if p = path then st else Absent)"

fun show_cell :: "cell \<Rightarrow> string" where
  "show_cell (Val (JStr s)) = s"
| "show_cell (Val (JBool b)) = (if b then ''True'' else ''False'')"
| "show_cell (Val JNull) = ''None''"
| "show_cell NaN = ''nan''"
| "show_cell _ = ''#''"

text \<open>
  Example documents: one without the \<open>events\<close> key, one with no event, one whose
  only event lacks \<open>module_name\<close>, and a trace of three events that are not in
  chronological order and whose \<open>total_events\<close> is wrong.
\<close>

definition doc_no_events :: json where
  "doc_no_events = JObj [(''trace_info'', JObj [(''total_events'', JNum 0)])]"

definition doc_empty :: json where
  "doc_empty = JObj [(''trace_info'', JObj [(''total_events'', JNum 0)]), (''events'', JArr [])]"

definition doc_no_module :: json where
  "doc_no_module =
     JObj [(''events'',
            JArr [JObj [(''timestamp'', JNum 0), (''formatted_time'', JStr ''0.0'')]])]"

definition demo_events :: "json list" where
  "demo_events =
     [JObj [(''timestamp'', JNum 2.5), (''formatted_time'', JStr ''2.500000''),
            (''module_name'', JStr ''UART0''), (''event_type'', JStr ''DEVICE_EVENT''),
            (''event_data'', JObj [(''operation'', JStr ''ENABLE'')])],
      JObj [(''timestamp'', JNum 0.5), (''formatted_time'', JStr ''0.500000''),
            (''module_name'', JStr ''DMA''), (''event_type'', JStr ''BUS_TRANSACTION''),
            (''event_data'', JObj [(''operation'', JStr ''READ''), (''address'', JStr ''0x1000'')])],
      JObj [(''timestamp'', JNum 1.25), (''formatted_time'', JStr ''1.250000''),
            (''module_name'', JStr ''UART0''), (''event_type'', JStr ''DEVICE_EVENT'')]]"

definition demo_doc :: json where
  "demo_doc =
     JObj [(''trace_info'', JObj [(''total_events'', JNum 99)]), (''events'', JArr demo_events)]"


definition demo_visualizer :: trace_visualizer where
  "demo_visualizer = TraceVisualizer (TraceParser ''t.json'')"




text \<open>A trace whose event carries a payload key that begins with \<open>data_\<close>.\<close>

definition doc_data_size :: json where
  "doc_data_size =
     JObj [(''trace_info'', JObj [(''total_events'', JNum 1)]),
           (''events'',
            JArr [JObj [(''timestamp'', JNum 0), (''formatted_time'', JStr ''0.000000''),
                        (''module_name'', JStr ''DMA''), (''event_type'', JStr ''BUS_TRANSACTION''),
                        (''event_data'',
                         JObj [(''operation'', JStr ''WRITE''), (''data_size'', JStr ''4'')])]])]"

text \<open>
  The label of a data field as the specification words it, for comparison with the code:
  the prefix \<open>data_\<close> taken off the front, underscores turned into spaces, title case.
\<close>

definition label_prefix_stripped :: "string \<Rightarrow> string" where
  "label_prefix_stripped field = title (str_replace ''_'' '' '' (drop (length ''data_'') field))"

section \<open>Properties of the color resolver\<close>

lemma event_colors_cases:
  "dict_get color_map et [] =
     (if et = ''BUS_TRANSACTION'' then
        [(''READ'', ''#3498db''), (''WRITE'', ''#e74c3c''), (''default'', ''#9b59b6'')]
      else if et = ''DEVICE_EVENT'' then
        [(''READ'', ''#2ecc71''), (''WRITE'', ''#f39c12''), (''RESET'', ''#e67e22''),
         (''ENABLE'', ''#1abc9c''), (''DISABLE'', ''#95a5a6''), (''DEMO_EVENT'', ''#f1c40f''),
         (''default'', ''#34495e'')]
      else if et = ''IRQ_EVENT'' then [(''default'', ''#8e44ad'')]
      else [])"
  by (simp add: color_map_def dict_get_def)

lemma color_bus:
  "get_event_color ''BUS_TRANSACTION'' opn =
        (if opn = Some ''READ'' then ''#3498db''
         else if opn = Some ''WRITE'' then ''#e74c3c''
         else ''#9b59b6'')"
  unfolding get_event_color_def event_colors_cases
  by (cases opn) (simp_all add: dict_get_def Let_def)

lemma color_device:
  "get_event_color ''DEVICE_EVENT'' opn =
        (if opn = Some ''READ'' then ''#2ecc71''
         else if opn = Some ''WRITE'' then ''#f39c12''
         else if opn = Some ''RESET'' then ''#e67e22''
         else if opn = Some ''ENABLE'' then ''#1abc9c''
         else if opn = Some ''DISABLE'' then ''#95a5a6''
         else if opn = Some ''DEMO_EVENT'' then ''#f1c40f''
         else ''#34495e'')"
  unfolding get_event_color_def event_colors_cases
  by (cases opn) (simp_all add: dict_get_def Let_def)

lemma color_irq: "get_event_color ''IRQ_EVENT'' opn = ''#8e44ad''"
  unfolding get_event_color_def event_colors_cases
  by (cases opn) (simp_all add: dict_get_def Let_def)

lemma color_other:
  "et \<noteq> ''BUS_TRANSACTION'' \<Longrightarrow> et \<noteq> ''DEVICE_EVENT'' \<Longrightarrow> et \<noteq> ''IRQ_EVENT'' \<Longrightarrow>
   get_event_color et opn = ''#7f7f7f''"
  unfolding get_event_color_def event_colors_cases
  by (cases opn) (simp_all add: dict_get_def Let_def)

text \<open>
  C2. For every pair of event type and operation the resolver returns the value of the
  fixed table: the entry of the operation under BUS_TRANSACTION or DEVICE_EVENT when
  there is one, otherwise the default entry of the event type (also for IRQ_EVENT, which
  has no other entry, and when the operation is absent), and the gray \<open>#7f7f7f\<close> for
  every other event type, whatever the operation.
\<close>

theorem get_event_color_table:
  "get_event_color et opn =
     (if et = ''BUS_TRANSACTION'' then
        (if opn = Some ''READ'' then ''#3498db''
         else if opn = Some ''WRITE'' then ''#e74c3c''
         else ''#9b59b6'')
      else if et = ''DEVICE_EVENT'' then
        (if opn = Some ''READ'' then ''#2ecc71''
         else if opn = Some ''WRITE'' then ''#f39c12''
         else if opn = Some ''RESET'' then ''#e67e22''
         else if opn = Some ''ENABLE'' then ''#1abc9c''
         else if opn = Some ''DISABLE'' then ''#95a5a6''
         else if opn = Some ''DEMO_EVENT'' then ''#f1c40f''
         else ''#34495e'')
      else if et = ''IRQ_EVENT'' then ''#8e44ad''
      else ''#7f7f7f'')"
proof (cases "et = ''BUS_TRANSACTION''")
  case True
  then show ?thesis by (simp add: color_bus)
next
  case nb: False
  show ?thesis
  proof (cases "et = ''DEVICE_EVENT''")
    case True
    with nb show ?thesis by (simp add: color_device)
  next
    case nd: False
    show ?thesis
    proof (cases "et = ''IRQ_EVENT''")
      case True
      with nb nd show ?thesis by (simp add: color_irq)
    next
      case False
      with nb nd show ?thesis by (simp add: color_other)
    qed
  qed
qed

section \<open>First-seen order\<close>













section \<open>Properties of the parser\<close>

lemma parse_event_valid: "valid_event ev \<Longrightarrow> \<exists>d. parse_event ev = Inr d"
  by (cases ev) (auto simp: parse_event_def Let_def split: option.splits json.splits)

lemma parse_loop_valid:
  "list_all valid_event evs \<Longrightarrow>
     \<exists>ds. parse_loop evs acc = Inr (acc @ ds) \<and> length ds = length evs"
proof (induction evs arbitrary: acc)
  case Nil
  then show ?case by simp
next
  case (Cons ev evs)
  then obtain d where d: "parse_event ev = Inr d" using parse_event_valid by auto
  from Cons obtain ds where "parse_loop evs (acc @ [d]) = Inr ((acc @ [d]) @ ds)" "length ds = length evs"
    by fastforce
  then show ?case using d by (intro exI [of _ "d # ds"]) simp
qed

lemma length_rows_DataFrame: "length (df_rows (DataFrame ds)) = length ds"
  by (simp add: DataFrame_def Let_def)

lemma doc_events_getitem:
  "doc_events doc = Some evs \<Longrightarrow> py_getitem doc ''events'' = Inr (JArr evs)"
  by (cases doc) (auto split: option.splits json.splits)

text \<open>
  C1. For every array of events of the input format there is one data frame, with as
  many rows as the array has events, that \<open>parse_events\<close> returns for every document
  holding that array, whatever else the document holds: \<open>trace_info.total_events\<close> is
  not read, a wrong count is neither rejected nor corrected, and the loaded document is
  kept as it is.
\<close>

theorem parse_events_count:
  assumes "list_all valid_event evs"
  shows "\<exists>df. length (df_rows df) = length evs \<and>
          (\<forall>doc fs p. doc_events doc = Some evs \<and> fs (trace_file_path p) = Content doc
                \<and> \<not> py_truthy (trace_data p) \<longrightarrow>
             parse_events fs p = (Inr df, p\<lparr>trace_data := doc, parser_events_df := Some df\<rparr>))"
proof -
  obtain ds where ds: "length ds = length evs" "parse_loop evs [] = Inr ds"
    using parse_loop_valid [OF assms, of "[]"] by auto
  have "parse_events fs p =
          (Inr (DataFrame ds), p\<lparr>trace_data := doc, parser_events_df := Some (DataFrame ds)\<rparr>)"
    if "doc_events doc = Some evs" "fs (trace_file_path p) = Content doc"
       "\<not> py_truthy (trace_data p)" for doc fs p
  proof -
    have l: "load_trace_data fs p = (Inr doc, p\<lparr>trace_data := doc\<rparr>)"
      using that(2) by (simp add: load_trace_data_def)
    show ?thesis
      using that(3) l ds(2) doc_events_getitem [OF that(1)]
      by (simp add: parse_events_def Let_def)
  qed
  then show ?thesis
    using ds(1) by (intro exI [of _ "DataFrame ds"]) (simp add: length_rows_DataFrame)
qed

text \<open>The three events of the demo document, declared as 99 events, give three rows.\<close>

theorem parse_events_count_witness:
  "list_all valid_event demo_events \<and>
   (\<exists>df. length (df_rows df) = 3 \<and>
      parse_events (one_file ''t.json'' (Content demo_doc)) (TraceParser ''t.json'') =
        (Inr df, (TraceParser ''t.json'')\<lparr>trace_data := demo_doc, parser_events_df := Some df\<rparr>))"
proof -
  have v: "list_all valid_event demo_events" by (simp add: demo_events_def)
  have d: "doc_events demo_doc = Some demo_events" by (simp add: demo_doc_def)
  have f: "one_file ''t.json'' (Content demo_doc) (trace_file_path (TraceParser ''t.json'')) = Content demo_doc"
    by (simp add: one_file_def TraceParser_def)
  have t: "\<not> py_truthy (trace_data (TraceParser ''t.json''))" by (simp add: TraceParser_def)
  have n: "length demo_events = 3" by (simp add: demo_events_def)
  from parse_events_count [OF v] obtain df where
    "length (df_rows df) = length demo_events"
    "\<forall>doc fs p. doc_events doc = Some demo_events \<and> fs (trace_file_path p) = Content doc
                \<and> \<not> py_truthy (trace_data p) \<longrightarrow>
             parse_events fs p = (Inr df, p\<lparr>trace_data := doc, parser_events_df := Some df\<rparr>)"
    by blast
  with d f t n v show ?thesis by auto
qed


text \<open>
  C5, as the code has it. Loading fails with FileNotFoundError exactly when the path does
  not exist and with ValueError exactly when the content is not valid JSON; every
  document that can be decoded is returned and stored, also one without the \<open>events\<close>
  key; a failed load stores nothing. The missing key shows only in \<open>parse_events\<close>,
  as KeyError.
\<close>

theorem load_outcomes:
  "((\<exists>msg. fst (load_trace_data fs p) = Inl (FileNotFoundError msg)) \<longleftrightarrow> fs (trace_file_path p) = Absent)
   \<and> ((\<exists>msg. fst (load_trace_data fs p) = Inl (ValueError msg)) \<longleftrightarrow> fs (trace_file_path p) = Undecodable)
   \<and> (\<forall>doc. fs (trace_file_path p) = Content doc \<longrightarrow>
          load_trace_data fs p = (Inr doc, p\<lparr>trace_data := doc\<rparr>))
   \<and> (\<forall>e. fst (load_trace_data fs p) = Inl e \<longrightarrow> snd (load_trace_data fs p) = p)
   \<and> (\<forall>kvs. fs (trace_file_path p) = Content (JObj kvs) \<and> map_of kvs ''events'' = None
           \<and> \<not> py_truthy (trace_data p) \<longrightarrow>
          fst (parse_events fs p) = Inl (KeyError ''events''))"
  by (cases "fs (trace_file_path p)") (auto simp: load_trace_data_def parse_events_def Let_def)

text \<open>The theorem at a document without \<open>events\<close>.\<close>

theorem load_outcomes_witness:
  "one_file ''t.json'' (Content doc_no_events) (trace_file_path (TraceParser ''t.json'')) = Content doc_no_events
   \<and> load_trace_data (one_file ''t.json'' (Content doc_no_events)) (TraceParser ''t.json'')
       = (Inr doc_no_events, (TraceParser ''t.json'')\<lparr>trace_data := doc_no_events\<rparr>)
   \<and> fst (parse_events (one_file ''t.json'' (Content doc_no_events)) (TraceParser ''t.json''))
       = Inl (KeyError ''events'')"
  using load_outcomes [of "one_file ''t.json'' (Content doc_no_events)" "TraceParser ''t.json''"]
  by (simp add: one_file_def TraceParser_def doc_no_events_def)

text \<open>
  C5 as stated fails: a document that lacks the \<open>events\<close> key is loaded without any
  error, and parsing it raises KeyError, not the format error.
\<close>

theorem load_missing_events_counterexample:
  "fst (load_trace_data (one_file ''t.json'' (Content doc_no_events)) (TraceParser ''t.json''))
     = Inr doc_no_events
   \<and> fst (parse_events (one_file ''t.json'' (Content doc_no_events)) (TraceParser ''t.json''))
     = Inl (KeyError ''events'')"
  by (simp add: load_trace_data_def parse_events_def one_file_def TraceParser_def doc_no_events_def)


section \<open>The aggregator on an empty trace\<close>

lemma DataFrame_Nil: "DataFrame [] = \<lparr>df_columns = [], df_rows = []\<rparr>"
  by (simp add: DataFrame_def unique_def)

text \<open>
  C4, as the code has it. With no event the data frame has no column, and
  \<open>create_summary_stats\<close> fails with KeyError on the first column it reads, never
  returning statistics: \<open>module_name\<close> in \<open>prepare_data\<close> on the first call,
  \<open>event_type\<close> on a second call, which finds the empty frame already stored.
\<close>

theorem summary_empty_fails:
  assumes "doc_events doc = Some []" and "fs path = Content doc"
  shows "fst (create_summary_stats fs fmt (TraceVisualizer (TraceParser path)))
           = Inl (KeyError ''module_name'')
       \<and> fst (create_summary_stats fs fmt
               (snd (create_summary_stats fs fmt (TraceVisualizer (TraceParser path)))))
           = Inl (KeyError ''event_type'')"
proof -
  have g: "py_getitem doc ''events'' = Inr (JArr [])"
    using assms(1) by (cases doc) (auto split: option.splits json.splits)
  have pe: "parse_events fs (TraceParser path) =
              (Inr \<lparr>df_columns = [], df_rows = []\<rparr>,
               (TraceParser path)\<lparr>trace_data := doc,
                 parser_events_df := Some \<lparr>df_columns = [], df_rows = []\<rparr>\<rparr>)"
    using assms(2) g
    by (simp add: parse_events_def load_trace_data_def TraceParser_def Let_def DataFrame_Nil)
  have pd: "prepare_data fs fmt (TraceVisualizer (TraceParser path)) =
              (Inl (KeyError ''module_name''),
               \<lparr>parser = (TraceParser path)\<lparr>trace_data := doc,
                   parser_events_df := Some \<lparr>df_columns = [], df_rows = []\<rparr>\<rparr>,
                events_df = Some \<lparr>df_columns = [], df_rows = []\<rparr>\<rparr>)"
    by (simp add: prepare_data_def pe TraceVisualizer_def df_col_def)
  have n: "events_df (TraceVisualizer (TraceParser path)) = None"
    by (simp add: TraceVisualizer_def)
  have c1: "create_summary_stats fs fmt (TraceVisualizer (TraceParser path)) =
              (Inl (KeyError ''module_name''),
               \<lparr>parser = (TraceParser path)\<lparr>trace_data := doc,
                   parser_events_df := Some \<lparr>df_columns = [], df_rows = []\<rparr>\<rparr>,
                events_df = Some \<lparr>df_columns = [], df_rows = []\<rparr>\<rparr>)"
    by (simp add: create_summary_stats_def n pd)
  show ?thesis
    by (simp add: c1) (simp add: create_summary_stats_def stats_of_def df_col_def)
qed

text \<open>The theorem at the document with no event.\<close>

theorem summary_empty_fails_witness:
  "doc_events doc_empty = Some [] \<and> one_file ''t.json'' (Content doc_empty) ''t.json'' = Content doc_empty
   \<and> fst (create_summary_stats (one_file ''t.json'' (Content doc_empty)) show_cell
          (TraceVisualizer (TraceParser ''t.json''))) = Inl (KeyError ''module_name'')"
proof -
  have a: "doc_events doc_empty = Some []" by (simp add: doc_empty_def)
  have b: "one_file ''t.json'' (Content doc_empty) ''t.json'' = Content doc_empty"
    by (simp add: one_file_def)
  show ?thesis
    using a b summary_empty_fails [of doc_empty "one_file ''t.json'' (Content doc_empty)" "''t.json''" show_cell]
    by simp
qed


text \<open>
  C4 as stated fails: the error on an empty trace is the KeyError that a trace with an
  event lacking \<open>module_name\<close> raises too; there is no error of its own for the
  empty data set.
\<close>

theorem summary_empty_counterexample:
  "fst (create_summary_stats (one_file ''t.json'' (Content doc_empty)) show_cell
          (TraceVisualizer (TraceParser ''t.json''))) = Inl (KeyError ''module_name'')
   \<and> fst (create_summary_stats (one_file ''t.json'' (Content doc_no_module)) show_cell
          (TraceVisualizer (TraceParser ''t.json''))) = Inl (KeyError ''module_name'')"
  by (simp add: create_summary_stats_def prepare_data_def parse_events_def load_trace_data_def
      TraceVisualizer_def TraceParser_def one_file_def doc_empty_def doc_no_module_def
      DataFrame_Nil df_col_def parse_event_def Let_def)


section \<open>What a successful \<open>prepare_data\<close> leaves\<close>












section \<open>Lane assignment\<close>












section \<open>Summary statistics\<close>













section \<open>The timeline figure\<close>












section \<open>Hover text\<close>

text \<open>
  C6 fails on the code. \<open>create_hover_text\<close> removes every occurrence of \<open>data_\<close>
  from the name of a field, not only the prefix that \<open>parse_events\<close> put there: the
  payload key \<open>data_size\<close> becomes the field \<open>data_data_size\<close> and is labelled
  \<open>Size\<close>, where the prefix taken off gives \<open>Data Size\<close>. The hover text of the
  event is the three header lines and one line per payload entry, joined by \<open><br>\<close>.
\<close>

theorem hover_label_drops_inner_data:
  "title (str_replace ''_'' '' '' (str_replace ''data_'' [] ''data_data_size'')) = ''Size''
   \<and> label_prefix_stripped ''data_data_size'' = ''Data Size''
   \<and> (\<exists>df. events_df (snd (prepare_data (one_file ''t.json'' (Content doc_data_size)) show_cell
                            demo_visualizer)) = Some df
          \<and> column df ''hover_text'' =
              [Val (JStr ''<b>Time:</b> 0.000000<br><b>Module:</b> DMA<br><b>Event Type:</b> BUS_TRANSACTION<br><b>Operation:</b> WRITE<br><b>Size:</b> 4'')])"
proof -
  have a: "title (str_replace ''_'' '' '' (str_replace ''data_'' [] ''data_data_size'')) = ''Size''"
    by code_simp
  have b: "label_prefix_stripped ''data_data_size'' = ''Data Size''"
    by code_simp
  have c: "map_option (\<lambda>df. column df ''hover_text'')
             (events_df (snd (prepare_data (one_file ''t.json'' (Content doc_data_size)) show_cell
                            demo_visualizer))) =
           Some [Val (JStr ''<b>Time:</b> 0.000000<br><b>Module:</b> DMA<br><b>Event Type:</b> BUS_TRANSACTION<br><b>Operation:</b> WRITE<br><b>Size:</b> 4'')]"
    by code_simp
  from c have d: "\<exists>df. events_df (snd (prepare_data (one_file ''t.json'' (Content doc_data_size)) show_cell
                            demo_visualizer)) = Some df
          \<and> column df ''hover_text'' =
              [Val (JStr ''<b>Time:</b> 0.000000<br><b>Module:</b> DMA<br><b>Event Type:</b> BUS_TRANSACTION<br><b>Operation:</b> WRITE<br><b>Size:</b> 4'')]"
    by (simp only: map_option_eq_Some)
  show ?thesis by (rule conjI [OF a conjI [OF b d]])
qed



end
